theory Spec2Isabelle
  imports Main
begin

section \<open>The application bootstrap of \<^verbatim>\<open>server/app/main.py\<close>\<close>

text \<open>
  The module builds one process-wide application object at import time and defines one
  endpoint:
  \<^verbatim>\<open>
  from app.core.settings import settings
  from app.api.routes import router as api_router

  app = FastAPI(title=settings.APP_NAME)
  app.add_middleware(CORSMiddleware, allow_origins=["http://localhost:5173"],
                     allow_credentials=True, allow_methods=["*"], allow_headers=["*"])
  app.include_router(api_router, prefix="/api")

  @app.get("/")
  def root():
      return {"name": settings.APP_NAME}
  \<close>
  Python exceptions are values of type \<open>error\<close>, a dictionary literal is a JSON object
  (an association list, in the order written), and the two module globals \<open>settings\<close>
  and \<open>app\<close> form the state that a handler could read or write.
\<close>

subsection \<open>Values\<close>

datatype error = Exception string

datatype json = JString string | JObject "(string \<times> json) list"

datatype content = JSONContent json | PlainText string

record request =
  req_method :: string
  req_path :: string
  req_headers :: "(string \<times> string) list"
  req_body :: string

record response =
  status_code :: nat
  resp_headers :: "(string \<times> string) list"
  resp_content :: content

text \<open>
  Modelled from the spec: the settings object of \<^verbatim>\<open>app/core/settings.py\<close>, which is
  not among the sources. The spec gives its interface: ``a settings object exposing
  \<^verbatim>\<open>APP_NAME: string\<close>''.
\<close>

record settings =
  APP_NAME :: string

text \<open>
  The keyword arguments of \<^verbatim>\<open>app.add_middleware(CORSMiddleware, ...)\<close>, as the source
  passes them.
\<close>

record CORSMiddleware =
  allow_origins :: "string list"
  allow_credentials :: bool
  allow_methods :: "string list"
  allow_headers :: "string list"

text \<open>
  Modelled from the spec: the router of \<^verbatim>\<open>app/api/routes.py\<close>, which is not among the
  sources: ``a router object exposing a mountable endpoint table''. An entry of the table
  names the methods it serves, the paths it answers (a predicate, since the path syntax
  of the router is its own) and the endpoint it runs. Endpoints are names: \<open>Root\<close> is the
  function \<^verbatim>\<open>root\<close> of the module, \<open>ApiEndpoint n\<close> is the \<open>n\<close>-th handler of the external
  router, whose behaviour is a parameter of the model.
\<close>

datatype endpoint = Root | ApiEndpoint nat

record route =
  route_methods :: "string list"
  route_matches :: "string \<Rightarrow> bool"
  route_endpoint :: endpoint

record app =
  title :: string
  user_middleware :: "CORSMiddleware list"
  routes :: "route list"

text \<open>The module globals \<^verbatim>\<open>settings\<close> and \<^verbatim>\<open>app\<close>.\<close>

record globals =
  settings :: settings
  app :: app

type_synonym handler = "request \<Rightarrow> globals \<Rightarrow> (error + json) \<times> globals"

subsection \<open>The endpoint\<close>

text \<open>
  \<^verbatim>\<open>def root(): return {"name": settings.APP_NAME}\<close>: no parameter, one read of the
  global \<^verbatim>\<open>settings\<close>, no assignment.
\<close>

definition root :: "globals \<Rightarrow> (error + json) \<times> globals" where
  "root g = (Inr (JObject [(''name'', JString (APP_NAME (settings g)))]), g)"

subsection \<open>Assembling the application\<close>

text \<open>
  Modelled from the spec: the framework's application class and its three registration
  calls, which are imported from \<^verbatim>\<open>fastapi\<close> and are not among the sources. The spec:
  the bootstrap ``creates the web application instance, registers one cross-origin
  middleware policy, mounts an externally-defined router at a fixed path prefix, and
  exposes one inline endpoint''; mounting is ``no transformation of requests; pure
  delegation''. A route mounted under a prefix answers exactly the paths that are the
  prefix followed by a path the route answered before.
\<close>

definition FastAPI :: "string \<Rightarrow> app" where
  "FastAPI t = \<lparr>title = t, user_middleware = [], routes = []\<rparr>"

definition add_middleware :: "CORSMiddleware \<Rightarrow> app \<Rightarrow> app" where
  "add_middleware m a = a\<lparr>user_middleware := m # user_middleware a\<rparr>"

definition under_prefix :: "string \<Rightarrow> (string \<Rightarrow> bool) \<Rightarrow> string \<Rightarrow> bool" where
  "under_prefix pre m p = (take (length pre) p = pre \<and> m (drop (length pre) p))"

definition mount :: "string \<Rightarrow> route \<Rightarrow> route" where
  "mount pre r = r\<lparr>route_matches := under_prefix pre (route_matches r)\<rparr>"

definition include_router :: "route list \<Rightarrow> string \<Rightarrow> app \<Rightarrow> app" where
  "include_router rt pre a = a\<lparr>routes := routes a @ map (mount pre) rt\<rparr>"

definition app_get :: "string \<Rightarrow> endpoint \<Rightarrow> app \<Rightarrow> app" where
  "app_get p ep a =
     a\<lparr>routes := routes a @
        [\<lparr>route_methods = [''GET''], route_matches = (\<lambda>q. q = p), route_endpoint = ep\<rparr>]\<rparr>"

text \<open>The policy of lines 10 to 16 of the module.\<close>

definition cors_policy :: CORSMiddleware where
  "cors_policy =
     \<lparr>allow_origins = [''http://localhost:5173''],
      allow_credentials = True,
      allow_methods = [''*''],
      allow_headers = [''*'']\<rparr>"

text \<open>
  The module body, top to bottom, given the imported settings object and router: line 7,
  lines 10 to 16, line 18, line 21.
\<close>

definition main :: "settings \<Rightarrow> route list \<Rightarrow> app" where
  "main s api_router =
     app_get ''/'' Root
       (include_router api_router ''/api''
         (add_middleware cors_policy
           (FastAPI (APP_NAME s))))"

definition startup :: "settings \<Rightarrow> route list \<Rightarrow> globals" where
  "startup s api_router = \<lparr>settings = s, app = main s api_router\<rparr>"

subsection \<open>The module as a sequence of steps that may raise\<close>

text \<open>
  Each statement of the module can raise: the two imports of repository modules (a
  malformed configuration raises while \<^verbatim>\<open>app.core.settings\<close> is imported) and the four
  framework calls. The outcome of each is a parameter; the module itself has no
  \<^verbatim>\<open>try\<close>, so the statements are chained and the first exception ends the module.
\<close>

record framework =
  fw_FastAPI :: "string \<Rightarrow> error + app"
  fw_add_middleware :: "CORSMiddleware \<Rightarrow> app \<Rightarrow> error + app"
  fw_include_router :: "route list \<Rightarrow> string \<Rightarrow> app \<Rightarrow> error + app"
  fw_get :: "string \<Rightarrow> endpoint \<Rightarrow> app \<Rightarrow> error + app"

definition then_do :: "error + 'a \<Rightarrow> ('a \<Rightarrow> error + 'b) \<Rightarrow> error + 'b" where
  "then_do x f = (case x of Inl e \<Rightarrow> Inl e | Inr v \<Rightarrow> f v)"

definition module_body ::
  "framework \<Rightarrow> error + settings \<Rightarrow> error + route list \<Rightarrow> error + globals" where
  "module_body fw import_settings import_router =
     then_do import_settings (\<lambda>s.
     then_do import_router (\<lambda>api_router.
     then_do (fw_FastAPI fw (APP_NAME s)) (\<lambda>a0.
     then_do (fw_add_middleware fw cors_policy a0) (\<lambda>a1.
     then_do (fw_include_router fw api_router ''/api'' a1) (\<lambda>a2.
     then_do (fw_get fw ''/'' Root a2) (\<lambda>a3.
     Inr \<lparr>settings = s, app = a3\<rparr>))))))"

text \<open>The framework whose calls all succeed, as assumed everywhere else.\<close>

definition fastapi :: framework where
  "fastapi =
     \<lparr>fw_FastAPI = (\<lambda>t. Inr (FastAPI t)),
      fw_add_middleware = (\<lambda>m a. Inr (add_middleware m a)),
      fw_include_router = (\<lambda>rt pre a. Inr (include_router rt pre a)),
      fw_get = (\<lambda>p ep a. Inr (app_get p ep a))\<rparr>"

subsection \<open>Serving a request\<close>

text \<open>
  Modelled from the spec: the framework's request handling, which is not among the
  sources. The spec: ``HTTP GET / \<rightarrow> 200 OK, JSON body''; error behaviour is ``delegated
  to the underlying framework's default handling, producing its standard error responses
  (e.g., 404 for unmatched paths, 500 for unhandled handler exceptions)''. The first
  route of the table that serves the method and answers the path runs its endpoint on
  the request as it is.
\<close>

definition run_endpoint :: "(nat \<Rightarrow> handler) \<Rightarrow> endpoint \<Rightarrow> handler" where
  "run_endpoint api ep req g = (case ep of Root \<Rightarrow> root g | ApiEndpoint n \<Rightarrow> api n req g)"

definition find_route :: "route list \<Rightarrow> string \<Rightarrow> string \<Rightarrow> route option" where
  "find_route rs m p = find (\<lambda>r. m \<in> set (route_methods r) \<and> route_matches r p) rs"

definition json_response :: "json \<Rightarrow> response" where
  "json_response j =
     \<lparr>status_code = 200,
      resp_headers = [(''content-type'', ''application/json'')],
      resp_content = JSONContent j\<rparr>"

definition not_found :: response where
  "not_found =
     \<lparr>status_code = 404,
      resp_headers = [(''content-type'', ''application/json'')],
      resp_content = JSONContent (JObject [(''detail'', JString ''Not Found'')])\<rparr>"

definition internal_server_error :: response where
  "internal_server_error =
     \<lparr>status_code = 500,
      resp_headers = [(''content-type'', ''text/plain; charset=utf-8'')],
      resp_content = PlainText ''Internal Server Error''\<rparr>"

definition route_dispatch ::
  "(nat \<Rightarrow> handler) \<Rightarrow> route list \<Rightarrow> request \<Rightarrow> globals \<Rightarrow> (error + response) \<times> globals" where
  "route_dispatch api rs req g =
     (case find_route rs (req_method req) (req_path req) of
        None \<Rightarrow> (Inr not_found, g)
      | Some r \<Rightarrow>
          (case run_endpoint api (route_endpoint r) req g of
             (Inl e, g') \<Rightarrow> (Inl e, g')
           | (Inr j, g') \<Rightarrow> (Inr (json_response j), g')))"

subsection \<open>The cross-origin middleware\<close>

text \<open>
  Modelled from the spec: the framework's cross-origin middleware, imported from
  \<^verbatim>\<open>fastapi.middleware.cors\<close> and not among the sources. The spec gives its options,
  \<^verbatim>\<open>{allowed_origins: list of origin strings permitted to make cross-origin requests,
  allow_credentials: boolean permitting cookies/auth headers on cross-origin requests,
  allow_methods: set of HTTP methods permitted ("*" = all), allow_headers: set of HTTP
  headers permitted ("*" = all)}\<close>, and its effect: ``preflight \<^verbatim>\<open>OPTIONS\<close> requests from
  origin \<^verbatim>\<open>http://localhost:5173\<close> receive permissive headers
  (\<^verbatim>\<open>Access-Control-Allow-Origin: http://localhost:5173\<close>, credentials allowed, all
  methods/headers allowed); requests from other origins do not receive these headers'',
  they ``are rejected by the framework's standard preflight/CORS enforcement''.

  A preflight request is, as in the CORS protocol, an \<^verbatim>\<open>OPTIONS\<close> request that carries
  an \<^verbatim>\<open>Origin\<close> and an \<^verbatim>\<open>Access-Control-Request-Method\<close> header; the middleware answers it
  itself. Any other request goes on to the wrapped application as it is, and the
  response that comes back gets the cross-origin headers when the request carried an
  allowed origin. An exception of the wrapped application passes through. Header names
  are in lower case, as the server hands them over.

  The answer to a preflight request from an allowed origin carries the four headers the
  spec names: \<^verbatim>\<open>Access-Control-Allow-Origin\<close>, \<^verbatim>\<open>Access-Control-Allow-Credentials\<close>,
  \<^verbatim>\<open>Access-Control-Allow-Methods\<close> and \<^verbatim>\<open>Access-Control-Allow-Headers\<close>. The methods that
  \<^verbatim>\<open>"*"\<close> stands for are the framework's list of standard methods, \<open>ALL_METHODS\<close>, which
  the response lists; a preflight request that asks for another method is rejected.
  With \<^verbatim>\<open>"*"\<close> for the headers, the response repeats the headers the request asked for.
  The answer to an origin outside the allow-list carries none of the four headers, as the
  spec says. The rejection status 400 and the text of the rejection are the framework's.
\<close>

datatype cors_kind = NoOrigin | Preflight string | Simple string

definition classify :: "request \<Rightarrow> cors_kind" where
  "classify req =
     (case map_of (req_headers req) ''origin'' of
        None \<Rightarrow> NoOrigin
      | Some origin \<Rightarrow>
          if req_method req = ''OPTIONS''
             \<and> map_of (req_headers req) ''access-control-request-method'' \<noteq> None
          then Preflight origin else Simple origin)"

definition is_allowed_origin :: "CORSMiddleware \<Rightarrow> string \<Rightarrow> bool" where
  "is_allowed_origin m origin =
     (''*'' \<in> set (allow_origins m) \<or> origin \<in> set (allow_origins m))"

definition ALL_METHODS :: "string list" where
  "ALL_METHODS = [''DELETE'', ''GET'', ''HEAD'', ''OPTIONS'', ''PATCH'', ''POST'', ''PUT'']"

definition permitted_methods :: "CORSMiddleware \<Rightarrow> string list" where
  "permitted_methods m = (if ''*'' \<in> set (allow_methods m) then ALL_METHODS else allow_methods m)"

definition method_allowed :: "CORSMiddleware \<Rightarrow> string \<Rightarrow> bool" where
  "method_allowed m meth = (meth \<in> set (permitted_methods m))"

definition headers_allowed :: "CORSMiddleware \<Rightarrow> string list \<Rightarrow> bool" where
  "headers_allowed m hs = (''*'' \<in> set (allow_headers m) \<or> set hs \<subseteq> set (allow_headers m))"

fun split_on :: "char \<Rightarrow> string \<Rightarrow> string list" where
  "split_on c [] = [[]]"
| "split_on c (x # xs) =
     (if x = c then [] # split_on c xs
      else (case split_on c xs of [] \<Rightarrow> [[x]] | w # ws \<Rightarrow> (x # w) # ws))"

definition strip :: "string \<Rightarrow> string" where
  "strip s = rev (dropWhile (\<lambda>c. c = CHR '' '') (rev (dropWhile (\<lambda>c. c = CHR '' '') s)))"

definition requested_method :: "request \<Rightarrow> string" where
  "requested_method req =
     (case map_of (req_headers req) ''access-control-request-method'' of
        None \<Rightarrow> [] | Some v \<Rightarrow> v)"

definition requested_headers :: "request \<Rightarrow> string list" where
  "requested_headers req =
     (case map_of (req_headers req) ''access-control-request-headers'' of
        None \<Rightarrow> [] | Some v \<Rightarrow> map strip (split_on CHR '','' v))"

definition cors_headers :: "CORSMiddleware \<Rightarrow> string \<Rightarrow> (string \<times> string) list" where
  "cors_headers m origin =
     (if is_allowed_origin m origin
      then (''access-control-allow-origin'', origin) #
           (if allow_credentials m then [(''access-control-allow-credentials'', ''true'')] else [])
      else [])"

fun join_with :: "string \<Rightarrow> string list \<Rightarrow> string" where
  "join_with sep [] = []"
| "join_with sep [x] = x"
| "join_with sep (x # y # ys) = x @ sep @ join_with sep (y # ys)"

definition preflight_headers :: "CORSMiddleware \<Rightarrow> request \<Rightarrow> string \<Rightarrow> (string \<times> string) list" where
  "preflight_headers m req origin =
     (if is_allowed_origin m origin
      then cors_headers m origin @
           [(''access-control-allow-methods'', join_with '', '' (permitted_methods m))] @
           (if ''*'' \<in> set (allow_headers m)
            then (case map_of (req_headers req) ''access-control-request-headers'' of
                    None \<Rightarrow> []
                  | Some v \<Rightarrow> [(''access-control-allow-headers'', v)])
            else [(''access-control-allow-headers'', join_with '', '' (allow_headers m))])
      else [])"

definition preflight_failures :: "CORSMiddleware \<Rightarrow> request \<Rightarrow> string \<Rightarrow> string list" where
  "preflight_failures m req origin =
     (if is_allowed_origin m origin then [] else [''origin'']) @
     (if method_allowed m (requested_method req) then [] else [''method'']) @
     (if headers_allowed m (requested_headers req) then [] else [''headers''])"

definition preflight_response :: "CORSMiddleware \<Rightarrow> request \<Rightarrow> string \<Rightarrow> response" where
  "preflight_response m req origin =
     (if preflight_failures m req origin = []
      then \<lparr>status_code = 200, resp_headers = preflight_headers m req origin,
            resp_content = PlainText ''OK''\<rparr>
      else \<lparr>status_code = 400, resp_headers = preflight_headers m req origin,
            resp_content =
              PlainText (''Disallowed CORS '' @ join_with '', '' (preflight_failures m req origin))\<rparr>)"

definition set_header :: "string \<Rightarrow> string \<Rightarrow> (string \<times> string) list \<Rightarrow> (string \<times> string) list" where
  "set_header k v hs = (k, v) # filter (\<lambda>kv. fst kv \<noteq> k) hs"

definition add_cors_headers :: "CORSMiddleware \<Rightarrow> string \<Rightarrow> response \<Rightarrow> response" where
  "add_cors_headers m origin r =
     r\<lparr>resp_headers := foldr (\<lambda>kv. set_header (fst kv) (snd kv)) (cors_headers m origin) (resp_headers r)\<rparr>"

text \<open>
  The request the middleware hands to the application it wraps: none when it answers
  itself, the request it received otherwise.
\<close>

definition cors_forward :: "request \<Rightarrow> request option" where
  "cors_forward req = (case classify req of Preflight origin \<Rightarrow> None | _ \<Rightarrow> Some req)"

definition cors_call ::
  "CORSMiddleware \<Rightarrow> (request \<Rightarrow> globals \<Rightarrow> (error + response) \<times> globals)
     \<Rightarrow> request \<Rightarrow> globals \<Rightarrow> (error + response) \<times> globals" where
  "cors_call m inner req g =
     (case classify req of
        NoOrigin \<Rightarrow> inner req g
      | Preflight origin \<Rightarrow> (Inr (preflight_response m req origin), g)
      | Simple origin \<Rightarrow>
          (case inner req g of
             (Inl e, g') \<Rightarrow> (Inl e, g')
           | (Inr r, g') \<Rightarrow> (Inr (add_cors_headers m origin r), g')))"

text \<open>
  The middleware stack wraps the whole route table; the first entry of the list is the
  outermost. An exception that no layer handled becomes the response 500.
\<close>

fun apply_middleware ::
  "CORSMiddleware list \<Rightarrow> (request \<Rightarrow> globals \<Rightarrow> (error + response) \<times> globals)
     \<Rightarrow> request \<Rightarrow> globals \<Rightarrow> (error + response) \<times> globals" where
  "apply_middleware [] inner = inner"
| "apply_middleware (m # ms) inner = cors_call m (apply_middleware ms inner)"

fun forwarded :: "CORSMiddleware list \<Rightarrow> request \<Rightarrow> request option" where
  "forwarded [] req = Some req"
| "forwarded (m # ms) req = (case cors_forward req of None \<Rightarrow> None | Some r \<Rightarrow> forwarded ms r)"

definition serve :: "(nat \<Rightarrow> handler) \<Rightarrow> request \<Rightarrow> globals \<Rightarrow> response \<times> globals" where
  "serve api req g =
     (case apply_middleware (user_middleware (app g)) (route_dispatch api (routes (app g))) req g of
        (Inl e, g') \<Rightarrow> (internal_server_error, g')
      | (Inr r, g') \<Rightarrow> (r, g'))"

text \<open>Whether the middleware answers the request itself.\<close>

definition is_preflight :: "request \<Rightarrow> bool" where
  "is_preflight req = (case classify req of Preflight origin \<Rightarrow> True | _ \<Rightarrow> False)"

text \<open>Whether the handler of the route that takes the request raises.\<close>

definition handler_raises :: "(nat \<Rightarrow> handler) \<Rightarrow> request \<Rightarrow> globals \<Rightarrow> bool" where
  "handler_raises api req g =
     (case find_route (routes (app g)) (req_method req) (req_path req) of
        None \<Rightarrow> False
      | Some r \<Rightarrow>
          (case fst (run_endpoint api (route_endpoint r) req g) of
             Inl e \<Rightarrow> True
           | Inr j \<Rightarrow> False))"

text \<open>The table entry that \<^verbatim>\<open>@app.get("/")\<close> registers for \<^verbatim>\<open>root\<close>.\<close>

definition root_route :: route where
  "root_route = \<lparr>route_methods = [''GET''], route_matches = (\<lambda>q. q = ''/''), route_endpoint = Root\<rparr>"

subsection \<open>Examples\<close>

text \<open>
  A configuration, a router with two entries (one of them on the router's own path
  \<^verbatim>\<open>/\<close>), handlers that echo the path they were called with, handlers that raise, four requests,
  and a framework whose router mount raises.
\<close>

definition example_settings :: settings where
  "example_settings = \<lparr>APP_NAME = ''MyService''\<rparr>"

definition example_router :: "route list" where
  "example_router =
     [\<lparr>route_methods = [''GET'', ''OPTIONS''], route_matches = (\<lambda>p. p = ''/items''),
       route_endpoint = ApiEndpoint 0\<rparr>,
      \<lparr>route_methods = [''GET''], route_matches = (\<lambda>p. p = ''/''),
       route_endpoint = ApiEndpoint 1\<rparr>]"

definition example_api :: "nat \<Rightarrow> handler" where
  "example_api n req g = (Inr (JObject [(''path'', JString (req_path req))]), g)"

definition example_get_root :: request where
  "example_get_root =
     \<lparr>req_method = ''GET'', req_path = ''/'',
      req_headers = [(''origin'', ''http://localhost:5173'')], req_body = []\<rparr>"

definition example_preflight :: "string \<Rightarrow> request" where
  "example_preflight origin =
     \<lparr>req_method = ''OPTIONS'', req_path = ''/api/items'',
      req_headers = [(''origin'', origin), (''access-control-request-method'', ''GET''),
                     (''access-control-request-headers'', ''content-type, x-token'')],
      req_body = []\<rparr>"

definition example_get_items :: request where
  "example_get_items =
     \<lparr>req_method = ''GET'', req_path = ''/api/items'',
      req_headers = [(''origin'', ''http://localhost:5173'')], req_body = []\<rparr>"


definition failing_api :: "nat \<Rightarrow> handler" where
  "failing_api n req g = (Inl (Exception ''handler failed''), g)"

definition broken_mount :: framework where
  "broken_mount = fastapi\<lparr>fw_include_router := (\<lambda>rt pre a. Inl (Exception ''router mount failed''))\<rparr>"

section \<open>Auxiliary facts\<close>

subsection \<open>The assembled application\<close>

lemma title_main: "title (main s rt) = APP_NAME s"
  by (simp add: main_def app_get_def include_router_def add_middleware_def FastAPI_def)

lemma user_middleware_main: "user_middleware (main s rt) = [cors_policy]"
  by (simp add: main_def app_get_def include_router_def add_middleware_def FastAPI_def)

lemma routes_main: "routes (main s rt) = map (mount ''/api'') rt @ [root_route]"
  by (simp add: main_def app_get_def include_router_def add_middleware_def FastAPI_def root_route_def)

lemma find_append: "find P (xs @ ys) = (case find P xs of None \<Rightarrow> find P ys | Some x \<Rightarrow> Some x)"
  by (induction xs) auto

lemma find_map: "find P (map f xs) = map_option f (find (\<lambda>x. P (f x)) xs)"
  by (induction xs) auto

lemma find_none: "(\<And>x. x \<in> set xs \<Longrightarrow> \<not> P x) \<Longrightarrow> find P xs = None"
  by (induction xs) auto

lemma mounted_not_root: "\<not> route_matches (mount ''/api'' r) ''/''"
  by (simp add: mount_def under_prefix_def)

lemma find_route_root: "find_route (routes (main s rt)) ''GET'' ''/'' = Some root_route"
proof -
  have "find (\<lambda>r. ''GET'' \<in> set (route_methods r) \<and> route_matches r ''/'') (map (mount ''/api'') rt) = None"
    by (rule find_none) (auto simp: mounted_not_root)
  then show ?thesis
    by (simp add: find_route_def routes_main find_append root_route_def)
qed

lemma mount_api_matches:
  "route_matches (mount ''/api'' r) p = (take 4 p = ''/api'' \<and> route_matches r (drop 4 p))"
proof -
  have len: "length ''/api'' = 4" by simp
  show ?thesis unfolding mount_def under_prefix_def len by simp
qed

lemma mount_methods [simp]: "route_methods (mount pre r) = route_methods r"
  by (simp add: mount_def)

lemma mount_endpoint [simp]: "route_endpoint (mount pre r) = route_endpoint r"
  by (simp add: mount_def)

lemma find_route_api:
  assumes "take 5 p = ''/api/''"
  shows "find_route (routes (main s rt)) m p = map_option (mount ''/api'') (find_route rt m (drop 4 p))"
proof -
  have "take 4 p = take 4 (take 5 p)" by simp
  then have p4: "take 4 p = ''/api''" by (simp only: assms) simp
  have nr: "p \<noteq> ''/''" using assms by auto
  have "find (\<lambda>r. m \<in> set (route_methods r) \<and> route_matches r p) (map (mount ''/api'') rt)
          = map_option (mount ''/api'') (find (\<lambda>r. m \<in> set (route_methods r) \<and> route_matches r (drop 4 p)) rt)"
    by (simp only: find_map mount_api_matches mount_methods p4) simp
  then show ?thesis
    using nr by (simp add: find_route_def routes_main find_append root_route_def split: option.splits)
qed

subsection \<open>The policy\<close>

lemma allowed_origin_iff: "is_allowed_origin cors_policy origin \<longleftrightarrow> origin = ''http://localhost:5173''"
  by (auto simp: is_allowed_origin_def cors_policy_def)

lemma method_allowed_iff: "method_allowed cors_policy meth \<longleftrightarrow> meth \<in> set ALL_METHODS"
  by (simp add: method_allowed_def permitted_methods_def cors_policy_def)

lemma headers_allowed_all: "headers_allowed cors_policy hs"
  by (simp add: headers_allowed_def cors_policy_def)

lemma all_methods_joined:
  "join_with '', '' ALL_METHODS = ''DELETE, GET, HEAD, OPTIONS, PATCH, POST, PUT''"
  by (simp add: ALL_METHODS_def)

lemma preflight_headers_allowed:
  "preflight_headers cors_policy req ''http://localhost:5173'' =
     [(''access-control-allow-origin'', ''http://localhost:5173''),
      (''access-control-allow-credentials'', ''true''),
      (''access-control-allow-methods'', ''DELETE, GET, HEAD, OPTIONS, PATCH, POST, PUT'')] @
     (case map_of (req_headers req) ''access-control-request-headers'' of
        None \<Rightarrow> []
      | Some v \<Rightarrow> [(''access-control-allow-headers'', v)])"
proof -
  have "permitted_methods cors_policy = ALL_METHODS"
    by (simp add: permitted_methods_def cors_policy_def)
  moreover have "cors_headers cors_policy ''http://localhost:5173'' =
     [(''access-control-allow-origin'', ''http://localhost:5173''),
      (''access-control-allow-credentials'', ''true'')]"
    by (simp add: cors_headers_def allowed_origin_iff) (simp add: cors_policy_def)
  moreover have "''*'' \<in> set (allow_headers cors_policy)"
    by (simp add: cors_policy_def)
  ultimately show ?thesis
    by (simp add: preflight_headers_def allowed_origin_iff all_methods_joined)
qed

lemma preflight_failures_allowed:
  "preflight_failures cors_policy req ''http://localhost:5173'' =
     (if requested_method req \<in> set ALL_METHODS then [] else [''method''])"
  by (simp add: preflight_failures_def allowed_origin_iff method_allowed_iff headers_allowed_all)

lemma preflight_allowed:
  "preflight_response cors_policy req ''http://localhost:5173'' =
     \<lparr>status_code = (if requested_method req \<in> set ALL_METHODS then 200 else 400),
      resp_headers = preflight_headers cors_policy req ''http://localhost:5173'',
      resp_content =
        PlainText (if requested_method req \<in> set ALL_METHODS then ''OK''
                   else ''Disallowed CORS method'')\<rparr>"
  by (simp add: preflight_response_def preflight_failures_allowed)

lemma preflight_other:
  "origin \<noteq> ''http://localhost:5173'' \<Longrightarrow>
   resp_headers (preflight_response cors_policy req origin) = [] \<and>
   status_code (preflight_response cors_policy req origin) = 400"
  by (simp add: preflight_response_def preflight_headers_def preflight_failures_def allowed_origin_iff)

lemma map_of_set_header [simp]: "map_of (set_header k v hs) k = Some v"
  by (simp add: set_header_def)

lemma acao_dispatch:
  "route_dispatch api rs req g = (Inr r, g') \<Longrightarrow>
   map_of (resp_headers r) ''access-control-allow-origin'' = None \<and> status_code r \<noteq> 500"
  by (auto simp: route_dispatch_def json_response_def not_found_def split: option.splits prod.splits sum.splits)

subsection \<open>Serving\<close>

lemma serve_main:
  assumes "app g = main s rt"
  shows "serve api req g =
     (case cors_call cors_policy (route_dispatch api (routes (main s rt))) req g of
        (Inl e, g') \<Rightarrow> (internal_server_error, g')
      | (Inr r, g') \<Rightarrow> (r, g'))"
  by (simp add: serve_def assms user_middleware_main)

lemma classify_get: "req_method req = ''GET'' \<Longrightarrow> classify req \<noteq> Preflight origin"
  by (simp add: classify_def split: option.splits)

lemma dispatch_root:
  "req_method req = ''GET'' \<Longrightarrow> req_path req = ''/'' \<Longrightarrow>
   route_dispatch api (routes (main s rt)) req g =
     (Inr (json_response (JObject [(''name'', JString (APP_NAME (settings g)))])), g)"
  by (simp add: route_dispatch_def find_route_root root_route_def run_endpoint_def root_def)

lemma serve_root:
  assumes "app g = main s rt" "req_method req = ''GET''" "req_path req = ''/''"
  shows "serve api req g =
     ((case classify req of Simple origin \<Rightarrow> add_cors_headers cors_policy origin | _ \<Rightarrow> (\<lambda>r. r))
        (json_response (JObject [(''name'', JString (APP_NAME (settings g)))])), g)"
  using classify_get[OF assms(2)]
  by (simp add: serve_main[OF assms(1)] cors_call_def dispatch_root[OF assms(2,3)] split: cors_kind.splits)

lemma status_add_cors [simp]: "status_code (add_cors_headers m origin r) = status_code r"
  by (simp add: add_cors_headers_def)

lemma content_add_cors [simp]: "resp_content (add_cors_headers m origin r) = resp_content r"
  by (simp add: add_cors_headers_def)

lemma classify_preflight:
  assumes "req_method req = ''OPTIONS''"
    "map_of (req_headers req) ''origin'' = Some origin"
    "map_of (req_headers req) ''access-control-request-method'' = Some meth"
  shows "classify req = Preflight origin"
  using assms by (simp add: classify_def)

lemma serve_preflight:
  assumes "app g = main s rt" "classify req = Preflight origin"
  shows "serve api req g = (preflight_response cors_policy req origin, g)"
  by (simp add: serve_main[OF assms(1)] cors_call_def assms(2))

lemma forwarded_Some: "forwarded ms req = Some r \<Longrightarrow> r = req"
  by (induction ms arbitrary: req) (auto simp: cors_forward_def split: cors_kind.splits option.splits)

lemma forwarded_None:
  "forwarded ms req = None \<Longrightarrow> apply_middleware ms inner req g = apply_middleware ms inner' req g"
proof (induction ms)
  case Nil
  then show ?case by simp
next
  case (Cons m ms)
  show ?case
  proof (cases "classify req")
    case NoOrigin
    with Cons show ?thesis by (simp add: cors_forward_def cors_call_def)
  next
    case (Preflight origin)
    then show ?thesis by (simp add: cors_call_def)
  next
    case (Simple origin)
    with Cons show ?thesis by (simp add: cors_forward_def cors_call_def)
  qed
qed

lemma forwarded_main:
  "forwarded (user_middleware (main s rt)) req = (if is_preflight req then None else Some req)"
  by (simp add: user_middleware_main cors_forward_def is_preflight_def split: cors_kind.splits)

lemma dispatch_api:
  assumes "take 5 (req_path req) = ''/api/''"
    and "find_route rt (req_method req) (drop 4 (req_path req)) = Some r"
  shows "route_dispatch api (routes (main s rt)) req g =
     (case run_endpoint api (route_endpoint r) req g of
        (Inl e, g') \<Rightarrow> (Inl e, g')
      | (Inr j, g') \<Rightarrow> (Inr (json_response j), g'))"
  by (simp add: route_dispatch_def find_route_api[OF assms(1)] assms(2))

lemma serve_api:
  assumes "app g = main s rt"
    and "take 5 (req_path req) = ''/api/''"
    and "\<not> is_preflight req"
    and "find_route rt (req_method req) (drop 4 (req_path req)) = Some r"
  shows "serve api req g =
              (case run_endpoint api (route_endpoint r) req g of
                 (Inl e, g') \<Rightarrow> (internal_server_error, g')
               | (Inr j, g') \<Rightarrow>
                   ((case classify req of
                       Simple origin \<Rightarrow> add_cors_headers cors_policy origin (json_response j)
                     | _ \<Rightarrow> json_response j), g'))"
  using assms(3)
  by (simp add: serve_main[OF assms(1)] cors_call_def dispatch_api[OF assms(2,4)] is_preflight_def
      split: cors_kind.splits prod.splits sum.splits)

lemma example_items_route:
  "find_route example_router (req_method example_get_items) (drop 4 (req_path example_get_items))
     = Some \<lparr>route_methods = [''GET'', ''OPTIONS''], route_matches = (\<lambda>p. p = ''/items''),
             route_endpoint = ApiEndpoint 0\<rparr>"
  by (simp add: find_route_def example_router_def example_get_items_def)

lemma classify_example_items: "classify example_get_items = Simple ''http://localhost:5173''"
  by (simp add: classify_def example_get_items_def)

lemma serve_example_items:
  "serve example_api example_get_items (startup example_settings example_router) =
     (add_cors_headers cors_policy ''http://localhost:5173''
        (json_response (JObject [(''path'', JString ''/api/items'')])),
      startup example_settings example_router)"
proof -
  have p: "take 5 (req_path example_get_items) = ''/api/''"
    by (simp add: example_get_items_def)
  have n: "\<not> is_preflight example_get_items"
    by (simp add: is_preflight_def classify_example_items)
  have a: "app (startup example_settings example_router) = main example_settings example_router"
    by (simp add: startup_def)
  show ?thesis
    by (simp add: serve_api[OF a p n example_items_route] run_endpoint_def example_api_def
        classify_example_items)
       (simp add: example_get_items_def)
qed

lemma is_preflight_classify:
  "map_of (req_headers req) ''origin'' = Some origin \<Longrightarrow>
   classify req = (if is_preflight req then Preflight origin else Simple origin)"
  by (simp add: is_preflight_def classify_def)

lemma handler_raises_dispatch:
  "handler_raises api req g \<longleftrightarrow> (\<exists>e. fst (route_dispatch api (routes (app g)) req g) = Inl e)"
  by (auto simp: handler_raises_def route_dispatch_def split: option.splits prod.splits sum.splits)

lemma serve_simple:
  assumes "app g = main s rt" "classify req = Simple origin"
  shows "serve api req g =
     (case route_dispatch api (routes (app g)) req g of
        (Inl e, g') \<Rightarrow> (internal_server_error, g')
      | (Inr r, g') \<Rightarrow> (add_cors_headers cors_policy origin r, g'))"
  by (simp add: serve_main[OF assms(1)] cors_call_def assms split: prod.splits sum.splits)

lemma serve_raises:
  assumes "app g = main s rt" "classify req = Simple origin" "handler_raises api req g"
  shows "fst (serve api req g) = internal_server_error"
  using assms(3)
  by (auto simp: serve_simple[OF assms(1,2)] handler_raises_dispatch split: prod.splits sum.splits)

lemma acao_add_cors:
  "map_of (resp_headers r) ''access-control-allow-origin'' = None \<Longrightarrow>
   map_of (resp_headers (add_cors_headers cors_policy origin r)) ''access-control-allow-origin'' =
     (if is_allowed_origin cors_policy origin then Some origin else None)"
  by (simp add: add_cors_headers_def cors_headers_def)

lemma serve_returns:
  assumes "app g = main s rt" "classify req = Simple origin" "\<not> handler_raises api req g"
  shows "map_of (resp_headers (fst (serve api req g))) ''access-control-allow-origin'' =
     (if is_allowed_origin cors_policy origin then Some origin else None)"
proof -
  obtain x g' where d: "route_dispatch api (routes (app g)) req g = (x, g')"
    by (cases "route_dispatch api (routes (app g)) req g")
  with assms(3) obtain r where x: "x = Inr r"
    by (cases x) (auto simp: handler_raises_dispatch)
  have "map_of (resp_headers r) ''access-control-allow-origin'' = None"
    using acao_dispatch[of api "routes (app g)" req g r g'] d x by simp
  then show ?thesis
    by (simp add: serve_simple[OF assms(1,2)] d x acao_add_cors)
qed


lemma example_preflight_classify: "classify (example_preflight origin) = Preflight origin"
  by (simp add: classify_def example_preflight_def)

lemma example_items_found:
  "map_option route_endpoint
     (find_route (routes (main example_settings example_router)) ''GET'' ''/api/items'')
     = Some (ApiEndpoint 0)"
proof -
  have p: "take 5 ''/api/items'' = ''/api/''" by simp
  have "find_route (routes (main example_settings example_router)) ''GET'' ''/api/items''
      = map_option (mount ''/api'') (find_route example_router ''GET'' (drop 4 ''/api/items''))"
    by (rule find_route_api[OF p])
  then show ?thesis
    by (simp add: find_route_def example_router_def)
qed

section \<open>The claims\<close>

text \<open>
  C1. For every configured application name, the empty string included, a \<^verbatim>\<open>GET\<close> request to
  the path \<^verbatim>\<open>/\<close> is answered with status 200 and the JSON object whose one key \<^verbatim>\<open>name\<close>
  holds the configured name, whatever the mounted router, the handlers of its routes, and
  the headers and body of the request are. No route of the router can take the request:
  mounted under \<^verbatim>\<open>/api\<close>, none answers the path \<^verbatim>\<open>/\<close>.
\<close>

theorem root_get_ok:
  assumes "app g = main s rt" "req_method req = ''GET''" "req_path req = ''/''"
  shows "status_code (fst (serve api req g)) = 200 \<and>
         resp_content (fst (serve api req g)) =
           JSONContent (JObject [(''name'', JString (APP_NAME (settings g)))])"
  by (simp add: serve_root[OF assms] json_response_def split: cors_kind.splits)

text \<open>With the name \<^verbatim>\<open>MyService\<close> the body is the object with \<^verbatim>\<open>name\<close> set to \<^verbatim>\<open>MyService\<close>.\<close>

theorem root_get_ok_witness:
  "status_code (fst (serve example_api example_get_root (startup example_settings example_router))) = 200 \<and>
   resp_content (fst (serve example_api example_get_root (startup example_settings example_router))) =
     JSONContent (JObject [(''name'', JString ''MyService'')])"
  using root_get_ok [of "startup example_settings example_router" example_settings example_router
      example_get_root example_api]
  by (simp add: startup_def example_get_root_def example_settings_def)




text \<open>
  C3. A preflight request whose origin is not in the allow-list, such as
  \<^verbatim>\<open>http://evil.example.com\<close>, is answered without an \<^verbatim>\<open>Access-Control-Allow-Origin\<close>
  header: in particular none that matches its origin.
\<close>

theorem preflight_other_origin:
  assumes "app g = main s rt"
    and "req_method req = ''OPTIONS''"
    and "map_of (req_headers req) ''origin'' = Some origin"
    and "map_of (req_headers req) ''access-control-request-method'' = Some meth"
    and "\<not> is_allowed_origin cors_policy origin"
  shows "map_of (resp_headers (fst (serve api req g))) ''access-control-allow-origin'' \<noteq> Some origin \<and>
         map_of (resp_headers (fst (serve api req g))) ''access-control-allow-origin'' = None"
  using assms(5)
  by (simp add: serve_preflight[OF assms(1) classify_preflight[OF assms(2,3,4)]]
      preflight_other allowed_origin_iff)

theorem preflight_other_origin_witness:
  "map_of (resp_headers (fst (serve example_api (example_preflight ''http://evil.example.com'')
        (startup example_settings example_router)))) ''access-control-allow-origin'' = None"
  using preflight_other_origin [of "startup example_settings example_router" example_settings
      example_router "example_preflight ''http://evil.example.com''" "''http://evil.example.com''"
      "''GET''" example_api]
  by (simp add: startup_def example_preflight_def allowed_origin_iff)

text \<open>
  C4. As stated (every request to a path under \<^verbatim>\<open>/api/\<close> is forwarded to the mounted
  router) the claim fails for preflight requests: the cross-origin middleware answers
  them itself, so no request goes on to the route table, although the router has a route
  for the method and path.
\<close>

theorem api_preflight_counterexample:
  "take 5 (req_path (example_preflight ''http://localhost:5173'')) = ''/api/'' \<and>
   forwarded (user_middleware (app (startup example_settings example_router)))
     (example_preflight ''http://localhost:5173'') = None \<and>
   map_option route_endpoint
     (find_route (routes (app (startup example_settings example_router))) ''OPTIONS'' ''/api/items'')
     = Some (ApiEndpoint 0) \<and>
   fst (serve example_api (example_preflight ''http://localhost:5173'')
          (startup example_settings example_router))
     = \<lparr>status_code = 200,
        resp_headers = [(''access-control-allow-origin'', ''http://localhost:5173''),
                        (''access-control-allow-credentials'', ''true''),
                        (''access-control-allow-methods'',
                         ''DELETE, GET, HEAD, OPTIONS, PATCH, POST, PUT''),
                        (''access-control-allow-headers'', ''content-type, x-token'')],
        resp_content = PlainText ''OK''\<rparr>"
proof -
  have c: "classify (example_preflight ''http://localhost:5173'') = Preflight ''http://localhost:5173''"
    by (simp add: classify_def example_preflight_def)
  have p: "take 5 ''/api/items'' = ''/api/''" by simp
  have "take 5 (req_path (example_preflight ''http://localhost:5173'')) = ''/api/''"
    by (simp add: example_preflight_def)
  moreover have "forwarded (user_middleware (app (startup example_settings example_router)))
     (example_preflight ''http://localhost:5173'') = None"
    by (simp add: startup_def forwarded_main is_preflight_def c)
  moreover have "map_option route_endpoint
     (find_route (routes (app (startup example_settings example_router))) ''OPTIONS'' ''/api/items'')
     = Some (ApiEndpoint 0)"
  proof -
    have "find_route (routes (main example_settings example_router)) ''OPTIONS'' ''/api/items''
        = map_option (mount ''/api'') (find_route example_router ''OPTIONS'' (drop 4 ''/api/items''))"
      by (rule find_route_api[OF p])
    then show ?thesis
      by (simp add: startup_def) (simp add: find_route_def example_router_def)
  qed
  moreover have "fst (serve example_api (example_preflight ''http://localhost:5173'')
          (startup example_settings example_router))
     = \<lparr>status_code = 200,
        resp_headers = [(''access-control-allow-origin'', ''http://localhost:5173''),
                        (''access-control-allow-credentials'', ''true''),
                        (''access-control-allow-methods'',
                         ''DELETE, GET, HEAD, OPTIONS, PATCH, POST, PUT''),
                        (''access-control-allow-headers'', ''content-type, x-token'')],
        resp_content = PlainText ''OK''\<rparr>"
    by (simp add: serve_preflight[OF _ c] startup_def preflight_allowed preflight_headers_allowed)
       (simp add: requested_method_def example_preflight_def ALL_METHODS_def)
  ultimately show ?thesis by blast
qed

text \<open>
  C4, amended. Every request to a path under \<^verbatim>\<open>/api/\<close> that is not a preflight request
  goes on to the route table as it was received; the route chosen is the one the router
  chooses for the method and the rest of the path; and that route's handler is called
  with the request as received (method, path, headers and body unchanged). Only the
  response gets the cross-origin headers.
\<close>

theorem api_request_forwarded:
  assumes "app g = main s rt"
    and "take 5 (req_path req) = ''/api/''"
    and "\<not> is_preflight req"
  shows "forwarded (user_middleware (app g)) req = Some req \<and>
         find_route (routes (app g)) (req_method req) (req_path req) =
           map_option (mount ''/api'') (find_route rt (req_method req) (drop 4 (req_path req))) \<and>
         (\<forall>r. find_route rt (req_method req) (drop 4 (req_path req)) = Some r \<longrightarrow>
            serve api req g =
              (case run_endpoint api (route_endpoint r) req g of
                 (Inl e, g') \<Rightarrow> (internal_server_error, g')
               | (Inr j, g') \<Rightarrow>
                   ((case classify req of
                       Simple origin \<Rightarrow> add_cors_headers cors_policy origin (json_response j)
                     | _ \<Rightarrow> json_response j), g')))"
proof (intro conjI allI impI)
  show "forwarded (user_middleware (app g)) req = Some req"
    using assms(3) by (simp add: assms(1) forwarded_main)
  show "find_route (routes (app g)) (req_method req) (req_path req) =
           map_option (mount ''/api'') (find_route rt (req_method req) (drop 4 (req_path req)))"
    by (simp add: assms(1) find_route_api[OF assms(2)])
next
  fix r
  assume r: "find_route rt (req_method req) (drop 4 (req_path req)) = Some r"
  show "serve api req g =
              (case run_endpoint api (route_endpoint r) req g of
                 (Inl e, g') \<Rightarrow> (internal_server_error, g')
               | (Inr j, g') \<Rightarrow>
                   ((case classify req of
                       Simple origin \<Rightarrow> add_cors_headers cors_policy origin (json_response j)
                     | _ \<Rightarrow> json_response j), g'))"
    by (rule serve_api[OF assms r])
qed

theorem api_request_forwarded_witness:
  "forwarded (user_middleware (app (startup example_settings example_router))) example_get_items
     = Some example_get_items \<and>
   fst (serve example_api example_get_items (startup example_settings example_router)) =
     add_cors_headers cors_policy ''http://localhost:5173''
       (json_response (JObject [(''path'', JString ''/api/items'')]))"
  using api_request_forwarded [of "startup example_settings example_router" example_settings
      example_router example_get_items example_api]
  by (simp add: startup_def is_preflight_def classify_example_items example_items_route
      run_endpoint_def example_api_def)
     (simp add: example_get_items_def)

text \<open>
  C5. The handler \<^verbatim>\<open>root\<close> leaves the globals (settings and application) as they
  were, and its result depends on the settings only. Serving \<^verbatim>\<open>GET /\<close> leaves the globals
  unchanged, serving the same request again gives the same response, and any two
  \<^verbatim>\<open>GET /\<close> requests get the same status and body.
\<close>

theorem root_stateless:
  "snd (root g) = g \<and>
   (settings g = settings g' \<longrightarrow> fst (root g) = fst (root g')) \<and>
   (app g = main s rt \<and> req_method req = ''GET'' \<and> req_path req = ''/'' \<longrightarrow>
      snd (serve api req g) = g \<and>
      fst (serve api req (snd (serve api req g))) = fst (serve api req g) \<and>
      (req_method req' = ''GET'' \<and> req_path req' = ''/'' \<longrightarrow>
         status_code (fst (serve api req' g)) = status_code (fst (serve api req g)) \<and>
         resp_content (fst (serve api req' g)) = resp_content (fst (serve api req g))))"
proof (intro conjI impI)
  show "snd (root g) = g" by (simp add: root_def)
  show "fst (root g) = fst (root g')" if "settings g = settings g'"
    using that by (simp add: root_def)
next
  assume a: "app g = main s rt \<and> req_method req = ''GET'' \<and> req_path req = ''/''"
  then show g: "snd (serve api req g) = g" by (simp add: serve_root)
  show "fst (serve api req (snd (serve api req g))) = fst (serve api req g)"
    by (simp only: g)
  assume b: "req_method req' = ''GET'' \<and> req_path req' = ''/''"
  show "status_code (fst (serve api req' g)) = status_code (fst (serve api req g))"
    using a b by (simp add: serve_root split: cors_kind.splits)
  show "resp_content (fst (serve api req' g)) = resp_content (fst (serve api req g))"
    using a b by (simp add: serve_root split: cors_kind.splits)
qed

theorem root_stateless_witness:
  "snd (serve example_api example_get_root (startup example_settings example_router))
     = startup example_settings example_router \<and>
   snd (root (startup example_settings example_router)) = startup example_settings example_router"
  using root_stateless [of "startup example_settings example_router"
      "startup example_settings example_router" example_settings example_router
      example_get_root example_api example_get_root]
  by (simp add: startup_def example_get_root_def)

text \<open>
  C6. Run with a settings object and a router whose imports succeed, the module body
  produces the globals whose application has the title \<^verbatim>\<open>settings.APP_NAME\<close>.
\<close>

theorem app_title_is_configured_name:
  "module_body fastapi (Inr s) (Inr api_router) = Inr (startup s api_router) \<and>
   title (app (startup s api_router)) = APP_NAME s"
  by (simp add: module_body_def then_do_def fastapi_def startup_def main_def title_main[unfolded main_def])

theorem app_title_is_configured_name_witness:
  "title (app (startup example_settings example_router)) = ''MyService''"
  using app_title_is_configured_name [of example_settings example_router]
  by (simp add: example_settings_def)

text \<open>
  C7. The application carries one cross-origin middleware, its allow-list is the one
  origin \<^verbatim>\<open>http://localhost:5173\<close>, and an origin is allowed exactly when it is that
  string.
\<close>

theorem allow_list_single_origin:
  "map allow_origins (user_middleware (main s api_router)) = [[''http://localhost:5173'']] \<and>
   (\<forall>m \<in> set (user_middleware (main s api_router)). \<forall>origin.
      is_allowed_origin m origin \<longleftrightarrow> origin = ''http://localhost:5173'')"
  by (simp add: user_middleware_main allowed_origin_iff) (simp add: cors_policy_def)

theorem allow_list_single_origin_witness:
  "is_allowed_origin cors_policy ''http://localhost:5173'' \<and>
   \<not> is_allowed_origin cors_policy ''http://evil.example.com''"
  using allow_list_single_origin [of example_settings example_router]
  by (simp add: user_middleware_main)

text \<open>
  C8. The module body fails with an exception exactly when one of its six steps
  (import of the settings, import of the router, construction of the application,
  installation of the middleware, mounting of the router, registration of the root
  route) raises that exception after all earlier steps succeeded; it produces globals
  exactly when all six succeeded. So a failing step ends the module with its exception,
  no step is tried again, and no application is produced from a failed step.
\<close>

theorem bootstrap_fails_fast:
  "(module_body fw import_settings import_router = Inl e \<longleftrightarrow>
      import_settings = Inl e \<or>
      (\<exists>s. import_settings = Inr s \<and>
        (import_router = Inl e \<or>
         (\<exists>rt. import_router = Inr rt \<and>
           (fw_FastAPI fw (APP_NAME s) = Inl e \<or>
            (\<exists>a0. fw_FastAPI fw (APP_NAME s) = Inr a0 \<and>
              (fw_add_middleware fw cors_policy a0 = Inl e \<or>
               (\<exists>a1. fw_add_middleware fw cors_policy a0 = Inr a1 \<and>
                 (fw_include_router fw rt ''/api'' a1 = Inl e \<or>
                  (\<exists>a2. fw_include_router fw rt ''/api'' a1 = Inr a2 \<and>
                    fw_get fw ''/'' Root a2 = Inl e)))))))))) \<and>
   (module_body fw import_settings import_router = Inr g \<longleftrightarrow>
      (\<exists>s rt a0 a1 a2 a3.
         import_settings = Inr s \<and> import_router = Inr rt \<and>
         fw_FastAPI fw (APP_NAME s) = Inr a0 \<and>
         fw_add_middleware fw cors_policy a0 = Inr a1 \<and>
         fw_include_router fw rt ''/api'' a1 = Inr a2 \<and>
         fw_get fw ''/'' Root a2 = Inr a3 \<and>
         g = \<lparr>settings = s, app = a3\<rparr>))"
  unfolding module_body_def then_do_def
  by (auto split: sum.splits)

theorem bootstrap_fails_fast_witness:
  "module_body broken_mount (Inr example_settings) (Inr example_router)
     = Inl (Exception ''router mount failed'') \<and>
   module_body fastapi (Inl (Exception ''malformed configuration'')) (Inr example_router)
     = Inl (Exception ''malformed configuration'')"
  using bootstrap_fails_fast [of broken_mount "Inr example_settings" "Inr example_router"
      "Exception ''router mount failed''"]
    bootstrap_fails_fast [of fastapi "Inl (Exception ''malformed configuration'')" "Inr example_router"
      "Exception ''malformed configuration''"]
  by (simp add: broken_mount_def fastapi_def)

text \<open>
  C9. For every state of the globals, \<^verbatim>\<open>root\<close> returns a dictionary with the single key
  \<^verbatim>\<open>name\<close> and raises nothing, so the answer to \<^verbatim>\<open>GET /\<close> is never the response 500.
\<close>

theorem root_total:
  "(\<exists>v. fst (root g) = Inr (JObject [(''name'', v)])) \<and>
   (app g = main s rt \<and> req_method req = ''GET'' \<and> req_path req = ''/''
      \<longrightarrow> status_code (fst (serve api req g)) \<noteq> 500)"
proof
  show "\<exists>v. fst (root g) = Inr (JObject [(''name'', v)])"
    by (simp add: root_def)
  show "app g = main s rt \<and> req_method req = ''GET'' \<and> req_path req = ''/''
      \<longrightarrow> status_code (fst (serve api req g)) \<noteq> 500"
    by (auto simp: serve_root json_response_def split: cors_kind.splits)
qed

theorem root_total_witness:
  "fst (root (startup \<lparr>APP_NAME = []\<rparr> example_router)) = Inr (JObject [(''name'', JString [])]) \<and>
   status_code (fst (serve example_api example_get_root (startup \<lparr>APP_NAME = []\<rparr> example_router))) \<noteq> 500"
  using root_total [of "startup \<lparr>APP_NAME = []\<rparr> example_router" "\<lparr>APP_NAME = []\<rparr>" example_router
      example_get_root example_api]
  by (simp add: startup_def example_get_root_def root_def)

text \<open>
  C10. As stated (the policy applies to every route the application serves) the claim
  fails when the handler of a route raises: the exception passes through the middleware,
  the response 500 is made outside it, and a request from the allowed origin to a route
  under \<^verbatim>\<open>/api\<close> is then answered without \<^verbatim>\<open>Access-Control-Allow-Origin\<close>.
\<close>

theorem cors_handler_raises_counterexample:
  "map_of (req_headers example_get_items) ''origin'' = Some ''http://localhost:5173'' \<and>
   is_allowed_origin cors_policy ''http://localhost:5173'' \<and>
   map_option route_endpoint
     (find_route (routes (app (startup example_settings example_router))) ''GET'' ''/api/items'')
     = Some (ApiEndpoint 0) \<and>
   fst (serve failing_api example_get_items (startup example_settings example_router))
     = internal_server_error \<and>
   map_of (resp_headers (fst (serve failing_api example_get_items
      (startup example_settings example_router)))) ''access-control-allow-origin'' = None"
proof -
  have a: "app (startup example_settings example_router) = main example_settings example_router"
    by (simp add: startup_def)
  have p: "take 5 (req_path example_get_items) = ''/api/''"
    by (simp add: example_get_items_def)
  have n: "\<not> is_preflight example_get_items"
    by (simp add: is_preflight_def classify_example_items)
  have "serve failing_api example_get_items (startup example_settings example_router)
      = (internal_server_error, startup example_settings example_router)"
    by (simp add: serve_api[OF a p n example_items_route] run_endpoint_def failing_api_def)
  then show ?thesis
    by (simp add: a example_items_found allowed_origin_iff internal_server_error_def)
       (simp add: example_get_items_def)
qed

text \<open>
  C10, amended. The middleware is on the application before the router is mounted and is
  the application's only middleware afterwards, and the route table it wraps holds every
  route of the router under \<^verbatim>\<open>/api\<close> and the root endpoint. For a request that carries an
  \<^verbatim>\<open>Origin\<close> header: \<^verbatim>\<open>GET /\<close> is answered with the root endpoint's response plus the
  policy's headers; a request under \<^verbatim>\<open>/api/\<close> that is not a preflight request and whose
  handler returns is answered with that handler's response plus the policy's headers; a
  preflight request, whatever its path, is answered by the policy. Whatever the path,
  the answer to the allowed origin carries \<^verbatim>\<open>Access-Control-Allow-Origin\<close> set to that
  origin unless the handler of the route raises, in which case the answer is the
  response 500 without that header; the answer to any other origin never carries it.
\<close>

theorem cors_covers_every_route:
  assumes "app g = main s rt"
    and "map_of (req_headers req) ''origin'' = Some origin"
  shows "user_middleware (add_middleware cors_policy (FastAPI (APP_NAME s))) = [cors_policy] \<and>
         user_middleware (app g) = [cors_policy] \<and>
         routes (app g) = map (mount ''/api'') rt @ [root_route] \<and>
         (req_method req = ''GET'' \<and> req_path req = ''/'' \<longrightarrow>
            fst (serve api req g) =
              add_cors_headers cors_policy origin
                (json_response (JObject [(''name'', JString (APP_NAME (settings g)))]))) \<and>
         (\<forall>r j g'. take 5 (req_path req) = ''/api/'' \<and> \<not> is_preflight req \<and>
              find_route rt (req_method req) (drop 4 (req_path req)) = Some r \<and>
              run_endpoint api (route_endpoint r) req g = (Inr j, g') \<longrightarrow>
            serve api req g = (add_cors_headers cors_policy origin (json_response j), g')) \<and>
         (is_preflight req \<longrightarrow>
            fst (serve api req g) = preflight_response cors_policy req origin) \<and>
         (is_allowed_origin cors_policy origin \<and> (is_preflight req \<or> \<not> handler_raises api req g) \<longrightarrow>
            map_of (resp_headers (fst (serve api req g))) ''access-control-allow-origin''
              = Some origin) \<and>
         (\<not> is_preflight req \<and> handler_raises api req g \<longrightarrow>
            fst (serve api req g) = internal_server_error) \<and>
         (\<not> is_allowed_origin cors_policy origin \<longrightarrow>
            map_of (resp_headers (fst (serve api req g))) ''access-control-allow-origin'' = None)"
proof -
  note c = is_preflight_classify[OF assms(2)]
  have c1: "user_middleware (add_middleware cors_policy (FastAPI (APP_NAME s))) = [cors_policy]"
    by (simp add: add_middleware_def FastAPI_def)
  have c2: "user_middleware (app g) = [cors_policy]"
    by (simp add: assms(1) user_middleware_main)
  have c3: "routes (app g) = map (mount ''/api'') rt @ [root_route]"
    by (simp add: assms(1) routes_main)
  have c4: "fst (serve api req g) =
              add_cors_headers cors_policy origin
                (json_response (JObject [(''name'', JString (APP_NAME (settings g)))]))"
    if "req_method req = ''GET'' \<and> req_path req = ''/''"
  proof -
    from that have "\<not> is_preflight req"
      using classify_get[of req] by (auto simp: is_preflight_def split: cors_kind.splits)
    then have "classify req = Simple origin" by (simp add: c)
    then show ?thesis
      using that by (simp add: serve_root[OF assms(1)])
  qed
  have c5: "serve api req g = (add_cors_headers cors_policy origin (json_response j), g')"
    if "take 5 (req_path req) = ''/api/'' \<and> \<not> is_preflight req \<and>
        find_route rt (req_method req) (drop 4 (req_path req)) = Some r \<and>
        run_endpoint api (route_endpoint r) req g = (Inr j, g')" for r j g'
  proof -
    from that have k: "classify req = Simple origin" by (simp add: c)
    from that have "serve api req g =
              (case run_endpoint api (route_endpoint r) req g of
                 (Inl e, g') \<Rightarrow> (internal_server_error, g')
               | (Inr j, g') \<Rightarrow>
                   ((case classify req of
                       Simple origin \<Rightarrow> add_cors_headers cors_policy origin (json_response j)
                     | _ \<Rightarrow> json_response j), g'))"
      by (intro serve_api[OF assms(1)]) simp_all
    with that show ?thesis by (simp add: k)
  qed
  have c6: "fst (serve api req g) = preflight_response cors_policy req origin"
    if "is_preflight req"
  proof -
    from that have "classify req = Preflight origin" by (simp add: c)
    then show ?thesis by (simp add: serve_preflight[OF assms(1)])
  qed
  have c7: "map_of (resp_headers (fst (serve api req g))) ''access-control-allow-origin'' = Some origin"
    if "is_allowed_origin cors_policy origin \<and> (is_preflight req \<or> \<not> handler_raises api req g)"
  proof (cases "is_preflight req")
    case True
    from that have o: "origin = ''http://localhost:5173''" by (simp add: allowed_origin_iff)
    show ?thesis
      by (simp add: c6[OF True] o preflight_allowed preflight_headers_allowed)
  next
    case False
    then have k: "classify req = Simple origin" by (simp add: c)
    from that False have "\<not> handler_raises api req g" by simp
    from serve_returns[OF assms(1) k this] that show ?thesis by simp
  qed
  have c8: "fst (serve api req g) = internal_server_error"
    if "\<not> is_preflight req \<and> handler_raises api req g"
  proof -
    from that have k: "classify req = Simple origin" by (simp add: c)
    from that show ?thesis by (simp add: serve_raises[OF assms(1) k])
  qed
  have c9: "map_of (resp_headers (fst (serve api req g))) ''access-control-allow-origin'' = None"
    if n: "\<not> is_allowed_origin cors_policy origin"
  proof (cases "is_preflight req")
    case True
    from n have "origin \<noteq> ''http://localhost:5173''" by (simp add: allowed_origin_iff)
    then show ?thesis by (simp add: c6[OF True] preflight_other)
  next
    case False
    then have k: "classify req = Simple origin" by (simp add: c)
    show ?thesis
    proof (cases "handler_raises api req g")
      case True
      then show ?thesis
        by (simp add: serve_raises[OF assms(1) k] internal_server_error_def)
    next
      case False
      from serve_returns[OF assms(1) k this] n show ?thesis by simp
    qed
  qed
  from c1 c2 c3 c4 c5 c6 c7 c8 c9 show ?thesis by blast
qed

theorem cors_covers_every_route_witness:
  "map_of (resp_headers (fst (serve example_api example_get_items
      (startup example_settings example_router)))) ''access-control-allow-origin''
     = Some ''http://localhost:5173'' \<and>
   fst (serve example_api example_get_root (startup example_settings example_router)) =
     add_cors_headers cors_policy ''http://localhost:5173''
       (json_response (JObject [(''name'', JString ''MyService'')])) \<and>
   fst (serve failing_api example_get_items (startup example_settings example_router))
     = internal_server_error"
proof -
  have a: "app (startup example_settings example_router) = main example_settings example_router"
    by (simp add: startup_def)
  have oi: "map_of (req_headers example_get_items) ''origin'' = Some ''http://localhost:5173''"
    by (simp add: example_get_items_def)
  have orr: "map_of (req_headers example_get_root) ''origin'' = Some ''http://localhost:5173''"
    by (simp add: example_get_root_def)
  have ni: "\<not> is_preflight example_get_items"
    by (simp add: is_preflight_def classify_example_items)
  have f: "find_route (routes (main example_settings example_router)) ''GET'' ''/api/items''
      = Some (mount ''/api'' \<lparr>route_methods = [''GET'', ''OPTIONS''],
                route_matches = (\<lambda>p. p = ''/items''), route_endpoint = ApiEndpoint 0\<rparr>)"
  proof -
    have p: "take 5 ''/api/items'' = ''/api/''" by simp
    have "find_route (routes (main example_settings example_router)) ''GET'' ''/api/items''
        = map_option (mount ''/api'') (find_route example_router ''GET'' (drop 4 ''/api/items''))"
      by (rule find_route_api[OF p])
    then show ?thesis by (simp add: find_route_def example_router_def)
  qed
  have h1: "\<not> handler_raises example_api example_get_items (startup example_settings example_router)"
    by (simp add: handler_raises_def a example_get_items_def f run_endpoint_def example_api_def)
  have h2: "handler_raises failing_api example_get_items (startup example_settings example_router)"
    by (simp add: handler_raises_def a example_get_items_def f run_endpoint_def failing_api_def)
  show ?thesis
    using cors_covers_every_route [OF a oi, of example_api]
      cors_covers_every_route [OF a orr, of example_api]
      cors_covers_every_route [OF a oi, of failing_api]
      ni h1 h2
    by (simp add: allowed_origin_iff)
       (simp add: example_get_root_def startup_def example_settings_def)
qed

end
